theory Spec2Isabelle
  imports Main "HOL-Library.Sublist"
begin

section \<open>Strings\<close>

text \<open>
  Strings are byte lists holding the UTF-8 encoding of the TypeScript string, so that every
  string the page can hold has a model and substring, prefix and suffix tests on the bytes
  agree with the same tests on the characters. The accented letters of the literals in
  \<^verbatim>\<open>page.tsx\<close> are written out as their two bytes.
\<close>

definition e_acute :: string where
  "e_acute = [CHR 0xC3, CHR 0xA9]"

definition e_grave :: string where
  "e_grave = [CHR 0xC3, CHR 0xA8]"

definition a_grave :: string where
  "a_grave = [CHR 0xC3, CHR 0xA0]"

definition check_mark :: string where
  "check_mark = [CHR 0xE2, CHR 0x9C, CHR 0x85]"

definition newline :: char where
  "newline = CHR 0x0A"

text \<open>
  \<^verbatim>\<open>String.prototype.toLowerCase\<close>, on the letters A to Z. The bytes of a character
  outside ASCII are left as they are: no such character has a lower-case form made of ASCII
  letters of the word the page compares with, so the comparison of \<^verbatim>\<open>toLowerCase()\<close>
  with an ASCII lower-case literal is the same on the model.
\<close>

definition lower_char :: "char \<Rightarrow> char" where
  "lower_char c =
     (let n = (of_char c :: nat)
      in if 65 \<le> n \<and> n \<le> 90 then char_of (n + 32) else c)"

definition toLowerCase :: "string \<Rightarrow> string" where
  "toLowerCase s = map lower_char s"

text \<open>The decimal numeral a template literal prints for a length.\<close>

definition digit_char :: "nat \<Rightarrow> char" where
  "digit_char d = char_of (48 + d)"

fun nat_to_string :: "nat \<Rightarrow> string" where
  "nat_to_string n =
     (if n < 10 then [digit_char n] else nat_to_string (n div 10) @ [digit_char (n mod 10)])"

declare nat_to_string.simps [simp del]



section \<open>The data model\<close>

datatype payment_method = Cash | Transfer

text \<open>
  The values a cell of a sheet comes back as. \<^verbatim>\<open>sheet_to_json\<close> is called without
  options, so a cell is handed over raw: a string, a number, a boolean, \<^verbatim>\<open>null\<close> for an
  error cell, or an object such as a \<^verbatim>\<open>Date\<close>. A number is given by the text that
  \<^verbatim>\<open>String\<close> prints for it, which tells the numbers apart but for the two zeros, both
  printed \<^verbatim>\<open>0\<close>; an object likewise by its text.
\<close>

datatype js_value = is_Str: Str string | Num string | Bool bool | Null | Obj string

text \<open>\<^verbatim>\<open>ToBoolean\<close>: the empty string, 0, NaN, \<^verbatim>\<open>false\<close> and \<^verbatim>\<open>null\<close> are falsy.\<close>

fun to_boolean :: "js_value \<Rightarrow> bool" where
  "to_boolean (Str s) = (s \<noteq> [])"
| "to_boolean (Num t) = (t \<noteq> ''0'' \<and> t \<noteq> ''NaN'')"
| "to_boolean (Bool b) = b"
| "to_boolean Null = False"
| "to_boolean (Obj t) = True"

text \<open>\<^verbatim>\<open>ToString\<close>, as a template literal applies it to what it interpolates.\<close>

fun to_string :: "js_value \<Rightarrow> string" where
  "to_string (Str s) = s"
| "to_string (Num t) = t"
| "to_string (Bool b) = (if b then ''true'' else ''false'')"
| "to_string Null = ''null''"
| "to_string (Obj t) = t"

text \<open>
  The interface \<^verbatim>\<open>Beneficiary\<close>. Its three text fields are declared as strings, and the
  form fills them with strings, but the import stores the cell it resolved as it is, so at
  run time a field holds any value a cell can have.
\<close>

record beneficiary =
  name :: js_value
  phone :: js_value
  reference :: js_value
  paymentMethod :: payment_method
  accountNumber :: "js_value option"

text \<open>
  A row of the first sheet. It is declared \<^verbatim>\<open>Record<string, string>\<close>, which nothing
  enforces: the cells are raw values. A column that the row does not have reads as
  \<^verbatim>\<open>undefined\<close>, here \<open>None\<close>.
\<close>

type_synonym row = "string \<rightharpoonup> js_value"

text \<open>
  The component's state: the four \<^verbatim>\<open>useState\<close> cells, and the two channels the
  handlers write to, \<^verbatim>\<open>alert\<close> and \<^verbatim>\<open>console.log\<close>, as the lists of what was
  written so far.
\<close>

record app_state =
  beneficiaries :: "beneficiary list"
  notificationDate :: string
  isSending :: bool
  successMessage :: "string option"
  alerts :: "string list"
  console :: "string list"

text \<open>The state after the first render: the defaults of the \<^verbatim>\<open>useState\<close> calls.\<close>

definition initial_state :: "string \<Rightarrow> app_state" where
  "initial_state today =
     \<lparr> beneficiaries = [], notificationDate = today, isSending = False,
       successMessage = None, alerts = [], console = [] \<rparr>"

section \<open>Import\<close>

text \<open>
  JavaScript's \<^verbatim>\<open>a || b\<close> on values that are a cell or \<^verbatim>\<open>undefined\<close>: the left
  operand when it is truthy, and the right one otherwise.
\<close>

definition truthy :: "js_value option \<Rightarrow> bool" where
  "truthy v = (case v of None \<Rightarrow> False | Some x \<Rightarrow> to_boolean x)"

definition or_js :: "js_value option \<Rightarrow> js_value option \<Rightarrow> js_value option" where
  "or_js a b = (if truthy a then a else b)"

text \<open>The last operand of a chain that ends in a string literal, \<^verbatim>\<open>a || ''\<close>.\<close>

definition or_str :: "js_value option \<Rightarrow> string \<Rightarrow> js_value" where
  "or_str a d = (case or_js a (Some (Str d)) of None \<Rightarrow> Str d | Some v \<Rightarrow> v)"

text \<open>
  The call \<^verbatim>\<open>v.toLowerCase()\<close>: only a string has the method, and on any other value
  the call throws a \<^verbatim>\<open>TypeError\<close>.
\<close>

datatype error = TypeError

definition call_toLowerCase :: "js_value \<Rightarrow> error + string" where
  "call_toLowerCase v = (case v of Str s \<Rightarrow> Inr (toLowerCase s) | _ \<Rightarrow> Inl TypeError)"

definition col_Nom :: string where "col_Nom = ''Nom''"
definition col_Beneficiaire :: string where
  "col_Beneficiaire = ''B'' @ e_acute @ ''n'' @ e_acute @ ''ficiaire''"
definition col_Name :: string where "col_Name = ''Name''"
definition col_Telephone :: string where
  "col_Telephone = ''T'' @ e_acute @ ''l'' @ e_acute @ ''phone''"
definition col_Phone :: string where "col_Phone = ''Phone''"
definition col_Numero :: string where
  "col_Numero = ''Num'' @ e_acute @ ''ro''"
definition col_Reference_fr :: string where
  "col_Reference_fr = ''R'' @ e_acute @ ''f'' @ e_acute @ ''rence''"
definition col_Bulletin :: string where "col_Bulletin = ''Bulletin''"
definition col_Reference :: string where "col_Reference = ''Reference''"
definition col_Methode :: string where
  "col_Methode = ''M'' @ e_acute @ ''thode''"
definition col_Mode :: string where "col_Mode = ''Mode''"
definition col_Compte :: string where "col_Compte = ''Compte''"
definition col_IBAN :: string where "col_IBAN = ''IBAN''"

text \<open>
  The function mapped over \<^verbatim>\<open>jsonData\<close> in \<^verbatim>\<open>reader.onload\<close>. The \<^verbatim>\<open>||\<close>
  chains throw nothing; the call of \<^verbatim>\<open>toLowerCase\<close> on the resolved mode may.
\<close>

definition rowToBeneficiary :: "row \<Rightarrow> error + beneficiary" where
  "rowToBeneficiary r =
     (case call_toLowerCase (or_str (or_js (r col_Methode) (r col_Mode)) ''cash'') of
        Inl e \<Rightarrow> Inl e
      | Inr mode \<Rightarrow>
          Inr \<lparr> name = or_str (or_js (or_js (r col_Nom) (r col_Beneficiaire)) (r col_Name)) '''',
                phone = or_str (or_js (or_js (r col_Telephone) (r col_Phone)) (r col_Numero)) '''',
                reference =
                  or_str (or_js (or_js (r col_Reference_fr) (r col_Bulletin)) (r col_Reference))
                    '''',
                paymentMethod = (if mode = ''virement'' then Transfer else Cash),
                accountNumber = or_js (or_js (r col_Compte) (r col_IBAN)) None \<rparr>)"

text \<open>
  \<^verbatim>\<open>Array.prototype.map\<close> with a callback that may throw: the rows are visited in order
  and the first throw ends the whole call.
\<close>

fun map_throwing :: "('a \<Rightarrow> error + 'b) \<Rightarrow> 'a list \<Rightarrow> error + 'b list" where
  "map_throwing f [] = Inr []"
| "map_throwing f (x # xs) =
     (case f x of
        Inl e \<Rightarrow> Inl e
      | Inr y \<Rightarrow> (case map_throwing f xs of Inl e \<Rightarrow> Inl e | Inr ys \<Rightarrow> Inr (y # ys)))"

text \<open>
  What \<^verbatim>\<open>XLSX.read\<close> followed by \<^verbatim>\<open>XLSX.utils.sheet_to_json\<close> makes of the bytes of
  the chosen file: the library is outside the repository, so its outcome is an input of the
  model. Either a call throws, or the rows of the first sheet come back in sheet order.
\<close>

datatype parse_result = ParseThrows | Parsed "row list"

definition read_error_text :: string where
  "read_error_text =
     ''Erreur lors de la lecture du fichier. V'' @ e_acute @ ''rifiez le format.''"

definition import_success_tail :: string where
  "import_success_tail =
     '' b'' @ e_acute @ ''n'' @ e_acute @ ''ficiaires ajout'' @ e_acute
       @ ''s depuis le fichier''"

definition import_success_text :: "nat \<Rightarrow> string" where
  "import_success_text n = nat_to_string n @ import_success_tail"

text \<open>
  The part of \<^verbatim>\<open>reader.onload\<close> that runs once the rows are there, the spec's
  \<^verbatim>\<open>importRows\<close>: the rest of the \<^verbatim>\<open>try\<close> block, and the \<^verbatim>\<open>catch\<close> that a
  throw of the mapping ends in, before anything is set.
\<close>

definition importRows :: "row list \<Rightarrow> app_state \<Rightarrow> app_state" where
  "importRows jsonData s =
     (case map_throwing rowToBeneficiary jsonData of
        Inl e \<Rightarrow> s\<lparr> alerts := alerts s @ [read_error_text] \<rparr>
      | Inr newBeneficiaries \<Rightarrow>
          s\<lparr> beneficiaries := beneficiaries s @ newBeneficiaries,
             successMessage := Some (import_success_text (length newBeneficiaries)) \<rparr>)"

text \<open>
  \<^verbatim>\<open>reader.onload\<close>: a throw of the library ends in the same \<^verbatim>\<open>catch\<close>, which
  raises the alert and sets nothing.
\<close>

definition onload :: "parse_result \<Rightarrow> app_state \<Rightarrow> app_state" where
  "onload p s =
     (case p of
        ParseThrows \<Rightarrow> s\<lparr> alerts := alerts s @ [read_error_text] \<rparr>
      | Parsed jsonData \<Rightarrow> importRows jsonData s)"

text \<open>
  \<^verbatim>\<open>handleFileUpload\<close>: with no file chosen it returns at once; with a file it clears the
  banner and the reader then runs \<^verbatim>\<open>onload\<close> on the file's contents.
\<close>

definition handleFileUpload :: "parse_result option \<Rightarrow> app_state \<Rightarrow> app_state" where
  "handleFileUpload file s =
     (case file of
        None \<Rightarrow> s
      | Some p \<Rightarrow> onload p (s\<lparr> successMessage := None \<rparr>))"

section \<open>Manual entry, removal, clearing\<close>

definition added_text :: string where
  "added_text = ''B'' @ e_acute @ ''n'' @ e_acute @ ''ficiaire ajout'' @ e_acute
     @ '' avec succ'' @ e_grave @ ''s''"

text \<open>
  \<^verbatim>\<open>addManualEntry\<close> appends what it is given and sets the banner; resetting the form
  touches the page's inputs only, which are no part of the state.
\<close>

definition addManualEntry :: "beneficiary \<Rightarrow> app_state \<Rightarrow> app_state" where
  "addManualEntry data s =
     s\<lparr> beneficiaries := beneficiaries s @ [data], successMessage := Some added_text \<rparr>"

text \<open>
  \<^verbatim>\<open>ManualEntryForm\<close>: the three text inputs, read through \<^verbatim>\<open>FormData\<close>, and the
  two \<^verbatim>\<open>useState\<close> cells of the form. \<^verbatim>\<open>handleSubmit\<close> builds the record that
  \<^verbatim>\<open>onSubmit\<close>, which is \<^verbatim>\<open>addManualEntry\<close>, receives.
\<close>

record manual_form =
  form_name :: string
  form_phone :: string
  form_reference :: string
  form_paymentMethod :: payment_method
  form_accountNumber :: string

definition handleSubmit_data :: "manual_form \<Rightarrow> beneficiary" where
  "handleSubmit_data f =
     \<lparr> name = Str (form_name f), phone = Str (form_phone f),
       reference = Str (form_reference f),
       paymentMethod = form_paymentMethod f,
       accountNumber =
         (if form_paymentMethod f = Transfer then Some (Str (form_accountNumber f))
          else None) \<rparr>"

text \<open>
  The inputs of the form carry the attribute \<^verbatim>\<open>required\<close>, the account input being
  rendered only for a transfer. The browser raises the submit event, and so runs
  \<^verbatim>\<open>handleSubmit\<close>, only when each rendered required input has a value; otherwise
  nothing is called (\<open>None\<close>).
\<close>

definition required_filled :: "manual_form \<Rightarrow> bool" where
  "required_filled f =
     (form_name f \<noteq> [] \<and> form_phone f \<noteq> [] \<and> form_reference f \<noteq> [] \<and>
      (if form_paymentMethod f = Transfer then form_accountNumber f \<noteq> [] else True))"

definition submit_form :: "manual_form \<Rightarrow> app_state \<Rightarrow> app_state option" where
  "submit_form f s =
     (if required_filled f then Some (addManualEntry (handleSubmit_data f) s) else None)"

text \<open>
  \<^verbatim>\<open>Array.prototype.filter\<close> with a callback that reads the index: the elements are
  visited from index \<open>k\<close> upwards and those the callback accepts are kept in order.
\<close>

fun filter_indexed :: "('a \<Rightarrow> nat \<Rightarrow> bool) \<Rightarrow> nat \<Rightarrow> 'a list \<Rightarrow> 'a list" where
  "filter_indexed f k [] = []"
| "filter_indexed f k (x # xs) =
     (if f x k then x # filter_indexed f (Suc k) xs else filter_indexed f (Suc k) xs)"

definition removed_text :: string where
  "removed_text = ''B'' @ e_acute @ ''n'' @ e_acute @ ''ficiaire supprim'' @ e_acute"

text \<open>\<^verbatim>\<open>removeBeneficiary\<close>; the index is a JavaScript number, here any integer.\<close>

definition removeBeneficiary :: "int \<Rightarrow> app_state \<Rightarrow> app_state" where
  "removeBeneficiary index s =
     s\<lparr> beneficiaries := filter_indexed (\<lambda>_ i. int i \<noteq> index) 0 (beneficiaries s),
        successMessage := Some removed_text \<rparr>"

text \<open>The \<^verbatim>\<open>onClick\<close> of both "Tout effacer" buttons, \<^verbatim>\<open>setBeneficiaries([])\<close>.\<close>

definition clear :: "app_state \<Rightarrow> app_state" where
  "clear s = s\<lparr> beneficiaries := [] \<rparr>"

section \<open>Messages and the batch send\<close>

definition treasury_text :: string where
  "treasury_text = ''Vous pouvez passer '' @ a_grave @ '' la tr'' @ e_acute @ ''sorerie.''"

definition transfer_text :: string where
  "transfer_text = ''Le virement a '' @ e_acute @ ''t'' @ e_acute @ '' effectu'' @ e_acute
     @ '' sur votre compte.''"

text \<open>\<^verbatim>\<open>baseMessage\<close> of \<^verbatim>\<open>generateSMSMessage\<close>, the date being the state's.\<close>

definition baseMessage :: "string \<Rightarrow> beneficiary \<Rightarrow> string" where
  "baseMessage date b =
     ''Bonjour '' @ to_string (name b) @ [newline] @ ''Votre bon de commande ''
       @ to_string (reference b) @ '' sera pay'' @ e_acute @ '' le '' @ date @ ''.''"

definition generateSMSMessage :: "string \<Rightarrow> beneficiary \<Rightarrow> string" where
  "generateSMSMessage date b =
     (case paymentMethod b of
        Cash \<Rightarrow> baseMessage date b @ [newline] @ treasury_text
      | Transfer \<Rightarrow> baseMessage date b @ [newline] @ transfer_text)"

definition sms_log_line :: "string \<Rightarrow> beneficiary \<Rightarrow> string" where
  "sms_log_line date b =
     ''Sending SMS to '' @ to_string (phone b) @ '': '' @ generateSMSMessage date b"

definition sent_text :: "nat \<Rightarrow> string" where
  "sent_text n = check_mark @ '' '' @ nat_to_string n @ '' notifications envoy'' @ e_acute
     @ ''es avec succ'' @ e_grave @ ''s''"

text \<open>
  \<^verbatim>\<open>sendNotifications\<close> runs in two parts. The part before \<^verbatim>\<open>await\<close> returns at once
  on an empty list (\<open>None\<close>: nothing is scheduled) and otherwise raises the pending flag and
  clears the banner. The part after the timer works on the list and the date the call
  captured, \<open>c\<close>, and writes to the state of that later moment, \<open>s\<close>. The timer's promise
  never rejects and \<^verbatim>\<open>console.log\<close> does not throw, so the \<^verbatim>\<open>catch\<close> branch is never
  taken and \<^verbatim>\<open>finally\<close> follows the success banner.
\<close>

definition sendNotifications_begin :: "app_state \<Rightarrow> app_state option" where
  "sendNotifications_begin s =
     (if length (beneficiaries s) = 0 then None
      else Some (s\<lparr> isSending := True, successMessage := None \<rparr>))"

definition sendNotifications_resume :: "app_state \<Rightarrow> app_state \<Rightarrow> app_state" where
  "sendNotifications_resume c s =
     s\<lparr> console := console s @ map (sms_log_line (notificationDate c)) (beneficiaries c),
        successMessage := Some (sent_text (length (beneficiaries c))),
        isSending := False \<rparr>"

text \<open>
  The states the component goes through during one call with no other event in between,
  the state at the call first.
\<close>

definition sendNotifications :: "app_state \<Rightarrow> app_state list" where
  "sendNotifications s =
     (case sendNotifications_begin s of
        None \<Rightarrow> [s]
      | Some s1 \<Rightarrow> [s, s1, sendNotifications_resume s s1])"

section \<open>The specification's wording\<close>

text \<open>
  The first alias of the list that the row has as a column, whatever its value, and the
  default when it has none of them.
\<close>

fun first_found :: "string list \<Rightarrow> row \<Rightarrow> string \<Rightarrow> js_value" where
  "first_found [] r d = Str d"
| "first_found (k # ks) r d = (case r k of Some v \<Rightarrow> v | None \<Rightarrow> first_found ks r d)"

text \<open>
  The first alias of the list whose cell in the row is there and is truthy, and the default
  when there is none.
\<close>

fun first_truthy :: "string list \<Rightarrow> row \<Rightarrow> string \<Rightarrow> js_value" where
  "first_truthy [] r d = Str d"
| "first_truthy (k # ks) r d =
     (case r k of
        Some v \<Rightarrow> (if to_boolean v then v else first_truthy ks r d)
      | None \<Rightarrow> first_truthy ks r d)"



text \<open>The store's invariant of the data model: no stored record has an empty required field.\<close>

definition complete :: "beneficiary \<Rightarrow> bool" where
  "complete b = (name b \<noteq> Str [] \<and> phone b \<noteq> Str [] \<and> reference b \<noteq> Str [])"

definition store_invariant :: "app_state \<Rightarrow> bool" where
  "store_invariant s = list_all complete (beneficiaries s)"

section \<open>The scenario of the specification\<close>

text \<open>
  The two rows of the specification's end-to-end scenario, the records they become, and a
  store that holds three records.
\<close>

definition ali_row :: row where
  "ali_row = [col_Nom \<mapsto> Str ''Ali'', col_Telephone \<mapsto> Str ''0600'',
              col_Reference_fr \<mapsto> Str ''B1'', col_Mode \<mapsto> Str ''virement'']"

definition sara_row :: row where
  "sara_row = [col_Name \<mapsto> Str ''Sara'', col_Phone \<mapsto> Str ''0611'',
               col_Reference \<mapsto> Str ''B2'']"

definition ali :: beneficiary where
  "ali = \<lparr> name = Str ''Ali'', phone = Str ''0600'', reference = Str ''B1'',
           paymentMethod = Transfer, accountNumber = None \<rparr>"

definition sara :: beneficiary where
  "sara = \<lparr> name = Str ''Sara'', phone = Str ''0611'', reference = Str ''B2'',
            paymentMethod = Cash, accountNumber = None \<rparr>"

definition omar :: beneficiary where
  "omar = \<lparr> name = Str ''Omar'', phone = Str ''0622'', reference = Str ''B3'',
            paymentMethod = Transfer, accountNumber = Some (Str ''MA64'') \<rparr>"

definition three_records :: app_state where
  "three_records = (initial_state ''2024-01-01'')\<lparr> beneficiaries := [ali, sara, omar] \<rparr>"

definition sara_form :: manual_form where
  "sara_form = \<lparr> form_name = ''Sara'', form_phone = ''0611'', form_reference = ''B2'',
                 form_paymentMethod = Cash, form_accountNumber = [] \<rparr>"

text \<open>A row whose only cell is under a column the import does not read.\<close>

definition other_column_row :: row where
  "other_column_row = [''Autre'' \<mapsto> Str ''x'']"

definition nameless :: beneficiary where
  "nameless = \<lparr> name = Str [], phone = Str [], reference = Str [], paymentMethod = Cash,
                accountNumber = None \<rparr>"



text \<open>A row whose mode cell holds the number 5.\<close>

definition numeric_mode_row :: row where
  "numeric_mode_row = [col_Nom \<mapsto> Str ''Ali'', col_Mode \<mapsto> Num ''5'']"

text \<open>A cash record whose name is the sentence that closes a transfer message.\<close>

definition sentence_named :: beneficiary where
  "sentence_named = \<lparr> name = Str transfer_text, phone = Str ''0600'', reference = Str ''B1'',
                      paymentMethod = Cash, accountNumber = None \<rparr>"

section \<open>Auxiliary facts\<close>

lemmas col_defs = col_Nom_def col_Beneficiaire_def col_Name_def col_Telephone_def col_Phone_def
  col_Numero_def col_Reference_fr_def col_Bulletin_def col_Reference_def col_Methode_def
  col_Mode_def col_Compte_def col_IBAN_def e_acute_def

lemmas or_defs = or_str_def or_js_def truthy_def




text \<open>The two readings of "found" part only on a column that is there with a falsy cell.\<close>

lemma first_found_eq_first_truthy:
  "list_all (\<lambda>k. r k = None \<or> truthy (r k)) ks \<Longrightarrow> first_found ks r d = first_truthy ks r d"
  by (induction ks) (auto simp: truthy_def split: option.splits)




lemma rowToBeneficiary_ali: "rowToBeneficiary ali_row = Inr ali"
  by (simp add: rowToBeneficiary_def ali_row_def ali_def col_defs or_defs toLowerCase_def
      lower_char_def call_toLowerCase_def)

lemma rowToBeneficiary_sara: "rowToBeneficiary sara_row = Inr sara"
  by (simp add: rowToBeneficiary_def sara_row_def sara_def col_defs or_defs toLowerCase_def
      lower_char_def call_toLowerCase_def)

lemma rowToBeneficiary_other_column: "rowToBeneficiary other_column_row = Inr nameless"
  by (simp add: rowToBeneficiary_def other_column_row_def nameless_def col_defs or_defs
      toLowerCase_def lower_char_def call_toLowerCase_def)

lemma rowToBeneficiary_numeric_mode: "rowToBeneficiary numeric_mode_row = Inl TypeError"
  by (simp add: rowToBeneficiary_def numeric_mode_row_def col_defs or_defs
      call_toLowerCase_def)








text \<open>A word without the separator occurs around it only on one side.\<close>

lemma sublist_across_separator:
  assumes "c \<notin> set t"
  shows "sublist t (a @ c # b) \<longleftrightarrow> sublist t a \<or> sublist t b"
proof
  assume "sublist t (a @ c # b)"
  then consider "sublist t a" | "sublist t (c # b)"
    | t1 t2 where "t = t1 @ t2" "suffix t1 a" "prefix t2 (c # b)"
    unfolding sublist_append by blast
  then show "sublist t a \<or> sublist t b"
  proof cases
    case 1
    then show ?thesis by simp
  next
    case 2
    then have "prefix t (c # b) \<or> sublist t b"
      by (simp add: sublist_Cons_right)
    with assms show ?thesis
      by (cases t) (auto simp: prefix_Cons)
  next
    case 3
    with assms have "t2 = []"
      by (cases t2) (auto simp: prefix_Cons)
    with 3 show ?thesis by auto
  qed
next
  assume "sublist t a \<or> sublist t b"
  then show "sublist t (a @ c # b)"
    by (metis sublist_append sublist_Cons_right)
qed

lemma suffix_across_separator:
  assumes "c \<notin> set t"
  shows "suffix t (a @ c # b) \<longleftrightarrow> suffix t b"
proof
  assume "suffix t (a @ c # b)"
  then have "suffix t (c # b)"
    using assms by (auto simp: suffix_append)
  then show "suffix t b"
    using assms by (auto simp: suffix_Cons)
next
  assume "suffix t b"
  then show "suffix t (a @ c # b)"
    by (simp add: suffix_append suffix_Cons)
qed

lemma newline_not_in_treasury_text: "newline \<notin> set treasury_text"
  by (simp add: newline_def treasury_text_def a_grave_def e_acute_def)

lemma newline_not_in_transfer_text: "newline \<notin> set transfer_text"
  by (simp add: newline_def transfer_text_def e_acute_def)

lemma transfer_text_not_in_treasury_text: "\<not> sublist transfer_text treasury_text"
  by code_simp

lemma treasury_text_not_in_transfer_text: "\<not> sublist treasury_text transfer_text"
  by code_simp

lemma generateSMSMessage_Cash:
  "paymentMethod b = Cash \<Longrightarrow>
   generateSMSMessage d b = baseMessage d b @ newline # treasury_text"
  by (simp add: generateSMSMessage_def)

lemma generateSMSMessage_Transfer:
  "paymentMethod b = Transfer \<Longrightarrow>
   generateSMSMessage d b = baseMessage d b @ newline # transfer_text"
  by (simp add: generateSMSMessage_def)

text \<open>With somebody in the list the pending flag is raised, and lowered at the end.\<close>

lemma sendNotifications_nonempty:
  "beneficiaries s \<noteq> [] \<Longrightarrow>
   sendNotifications s
     = [s, s\<lparr> isSending := True, successMessage := None \<rparr>,
        s\<lparr> isSending := False,
           successMessage := Some (sent_text (length (beneficiaries s))),
           console := console s @ map (sms_log_line (notificationDate s)) (beneficiaries s) \<rparr>]"
  by (simp add: sendNotifications_def sendNotifications_begin_def sendNotifications_resume_def)

text \<open>The indexed filter that drops one index.\<close>

lemma filter_indexed_miss:
  "i < int k \<or> int k + int (length xs) \<le> i \<Longrightarrow>
   filter_indexed (\<lambda>_ j. int j \<noteq> i) k xs = xs"
  by (induction xs arbitrary: k) auto

lemma filter_indexed_hit:
  "int k \<le> i \<Longrightarrow> i < int k + int (length xs) \<Longrightarrow>
   filter_indexed (\<lambda>_ j. int j \<noteq> i) k xs
     = take (nat (i - int k)) xs @ drop (Suc (nat (i - int k))) xs"
proof (induction xs arbitrary: k)
  case Nil
  then show ?case by simp
next
  case (Cons x xs)
  show ?case
  proof (cases "int k = i")
    case True
    have "filter_indexed (\<lambda>_ j. int j \<noteq> i) (Suc k) xs = xs"
      using True by (intro filter_indexed_miss) simp
    with True show ?thesis by simp
  next
    case False
    with Cons.prems have later: "int (Suc k) \<le> i" "i < int (Suc k) + int (length xs)"
      by auto
    from False Cons.prems have pos: "nat (i - int k) = Suc (nat (i - int (Suc k)))"
      by simp
    have "filter_indexed (\<lambda>_ j. int j \<noteq> i) k (x # xs)
        = x # filter_indexed (\<lambda>_ j. int j \<noteq> i) (Suc k) xs"
      using False by simp
    also have "\<dots>
        = x # (take (nat (i - int (Suc k))) xs @ drop (Suc (nat (i - int (Suc k)))) xs)"
      using Cons.IH[OF later] by simp
    also have "\<dots> = take (nat (i - int k)) (x # xs) @ drop (Suc (nat (i - int k))) (x # xs)"
      unfolding pos by simp
    finally show ?thesis .
  qed
qed

lemma set_filter_indexed: "set (filter_indexed f k xs) \<subseteq> set xs"
  by (induction xs arbitrary: k) auto

lemma removeBeneficiary_take_drop:
  assumes "0 \<le> i" and "i < int (length (beneficiaries s))"
  shows "beneficiaries (removeBeneficiary i s)
           = take (nat i) (beneficiaries s) @ drop (Suc (nat i)) (beneficiaries s)"
  using assms filter_indexed_hit[of 0 i "beneficiaries s"]
  by (simp add: removeBeneficiary_def)

text \<open>The store's invariant, one operation at a time.\<close>

lemma store_invariant_removeBeneficiary:
  "store_invariant s \<Longrightarrow> store_invariant (removeBeneficiary i s)"
  using set_filter_indexed[of "\<lambda>_ j. int j \<noteq> i" 0 "beneficiaries s"]
  by (auto simp: store_invariant_def removeBeneficiary_def list_all_iff)

lemma store_invariant_clear: "store_invariant (clear s)"
  by (simp add: store_invariant_def clear_def)

lemma store_invariant_addManualEntry:
  "store_invariant s \<Longrightarrow> store_invariant (addManualEntry data s) \<longleftrightarrow> complete data"
  by (simp add: store_invariant_def addManualEntry_def)

lemma complete_handleSubmit_data: "required_filled f \<Longrightarrow> complete (handleSubmit_data f)"
  by (simp add: required_filled_def complete_def handleSubmit_data_def)

lemma store_invariant_importRows:
  "store_invariant s \<Longrightarrow>
   store_invariant (importRows rows s)
     \<longleftrightarrow> (case map_throwing rowToBeneficiary rows of
            Inl e \<Rightarrow> True
          | Inr bs \<Rightarrow> list_all complete bs)"
  by (cases "map_throwing rowToBeneficiary rows")
    (simp_all add: store_invariant_def importRows_def)

lemma sara_form_submitted:
  "submit_form sara_form s = Some (addManualEntry sara s)"
  by (simp add: submit_form_def required_filled_def handleSubmit_data_def sara_form_def
      sara_def)

lemma store_invariant_three_records: "store_invariant three_records"
  by (simp add: store_invariant_def three_records_def initial_state_def complete_def
      ali_def sara_def omar_def)

section \<open>Import: how a row becomes a record\<close>




section \<open>The closing line of a message\<close>

text \<open>
  Claim C2, as the code has it. The message of a cash record ends with the treasury
  sentence, so contains it, and does not end with the transfer sentence; the transfer
  sentence occurs in it exactly when it occurs in the part before the closing line, which
  is made of the name, the reference and the date. The same holds for a transfer record
  with the two sentences exchanged.
\<close>

theorem generateSMSMessage_closing_line:
  "(paymentMethod b = Cash \<longrightarrow>
      sublist treasury_text (generateSMSMessage d b) \<and>
      suffix treasury_text (generateSMSMessage d b) \<and>
      \<not> suffix transfer_text (generateSMSMessage d b) \<and>
      (sublist transfer_text (generateSMSMessage d b)
         \<longleftrightarrow> sublist transfer_text (baseMessage d b))) \<and>
   (paymentMethod b = Transfer \<longrightarrow>
      sublist transfer_text (generateSMSMessage d b) \<and>
      suffix transfer_text (generateSMSMessage d b) \<and>
      \<not> suffix treasury_text (generateSMSMessage d b) \<and>
      (sublist treasury_text (generateSMSMessage d b)
         \<longleftrightarrow> sublist treasury_text (baseMessage d b)))"
proof (intro conjI impI)
  assume cash: "paymentMethod b = Cash"
  note msg = generateSMSMessage_Cash [OF cash]
  show "sublist treasury_text (generateSMSMessage d b)"
    by (simp add: msg sublist_across_separator newline_not_in_treasury_text)
  show "suffix treasury_text (generateSMSMessage d b)"
    by (simp add: msg suffix_across_separator newline_not_in_treasury_text)
  show "\<not> suffix transfer_text (generateSMSMessage d b)"
    using transfer_text_not_in_treasury_text suffix_imp_sublist
    by (auto simp: msg suffix_across_separator newline_not_in_transfer_text)
  show "sublist transfer_text (generateSMSMessage d b)
          \<longleftrightarrow> sublist transfer_text (baseMessage d b)"
    by (simp add: msg sublist_across_separator newline_not_in_transfer_text
        transfer_text_not_in_treasury_text)
next
  assume transfer: "paymentMethod b = Transfer"
  note msg = generateSMSMessage_Transfer [OF transfer]
  show "sublist transfer_text (generateSMSMessage d b)"
    by (simp add: msg sublist_across_separator newline_not_in_transfer_text)
  show "suffix transfer_text (generateSMSMessage d b)"
    by (simp add: msg suffix_across_separator newline_not_in_transfer_text)
  show "\<not> suffix treasury_text (generateSMSMessage d b)"
    using treasury_text_not_in_transfer_text suffix_imp_sublist
    by (auto simp: msg suffix_across_separator newline_not_in_treasury_text)
  show "sublist treasury_text (generateSMSMessage d b)
          \<longleftrightarrow> sublist treasury_text (baseMessage d b)"
    by (simp add: msg sublist_across_separator newline_not_in_treasury_text
        treasury_text_not_in_transfer_text)
qed

theorem generateSMSMessage_closing_line_witness:
  "paymentMethod sara = Cash \<and>
   sublist treasury_text (generateSMSMessage ''2024-01-01'' sara) \<and>
   \<not> sublist transfer_text (generateSMSMessage ''2024-01-01'' sara) \<and>
   paymentMethod ali = Transfer \<and>
   sublist transfer_text (generateSMSMessage ''2024-01-01'' ali) \<and>
   \<not> sublist treasury_text (generateSMSMessage ''2024-01-01'' ali)"
proof -
  have cash: "paymentMethod sara = Cash" and transfer: "paymentMethod ali = Transfer"
    by (simp_all add: sara_def ali_def)
  have "\<not> sublist transfer_text (baseMessage ''2024-01-01'' sara)"
    by code_simp
  moreover have "\<not> sublist treasury_text (baseMessage ''2024-01-01'' ali)"
    by code_simp
  ultimately show ?thesis
    using cash transfer
      generateSMSMessage_closing_line [of sara "''2024-01-01''"]
      generateSMSMessage_closing_line [of ali "''2024-01-01''"]
    by simp
qed

text \<open>
  C2 as stated fails on a cash record whose name is the transfer sentence: its message
  contains that sentence.
\<close>

theorem cash_message_with_transfer_sentence:
  "paymentMethod sentence_named = Cash \<and>
   sublist transfer_text (generateSMSMessage ''2024-01-01'' sentence_named)"
  by code_simp

section \<open>The invariant of the store\<close>

text \<open>
  Claim C3, as the code has it. The store checks nothing itself. From a store in which
  every record has a name, a phone and a reference that are not the empty string, removing
  at any index and clearing give such a store again; \<^verbatim>\<open>addManualEntry\<close> does exactly
  when the record it is given has the three fields, which a submission of the form always
  has; and an import does exactly when it appends nothing, because the mapping throws, or
  every record it appends has the three fields.
\<close>

theorem store_invariant_preserved:
  "store_invariant s \<Longrightarrow>
   store_invariant (removeBeneficiary i s) \<and>
   store_invariant (clear s) \<and>
   (store_invariant (addManualEntry data s) \<longleftrightarrow> complete data) \<and>
   (case submit_form f s of None \<Rightarrow> True | Some s' \<Rightarrow> store_invariant s') \<and>
   (store_invariant (importRows rows s)
      \<longleftrightarrow> (case map_throwing rowToBeneficiary rows of
             Inl e \<Rightarrow> True
           | Inr bs \<Rightarrow> list_all complete bs))"
proof -
  assume inv: "store_invariant s"
  have "case submit_form f s of None \<Rightarrow> True | Some s' \<Rightarrow> store_invariant s'"
    using inv complete_handleSubmit_data [of f]
    by (simp add: submit_form_def store_invariant_addManualEntry)
  with inv show ?thesis
    by (simp add: store_invariant_removeBeneficiary store_invariant_clear
        store_invariant_addManualEntry store_invariant_importRows)
qed

theorem store_invariant_preserved_witness:
  "store_invariant three_records \<and>
   store_invariant (removeBeneficiary 1 three_records) \<and>
   store_invariant (clear three_records) \<and>
   store_invariant (addManualEntry sara three_records) \<and>
   submit_form sara_form three_records = Some (addManualEntry sara three_records) \<and>
   store_invariant (importRows [ali_row, sara_row] three_records) \<and>
   store_invariant (importRows [ali_row, numeric_mode_row] three_records) \<and>
   \<not> store_invariant (importRows [ali_row, other_column_row] three_records)"
proof -
  have "complete sara" and "complete ali" and "\<not> complete nameless"
    by (simp_all add: complete_def sara_def ali_def nameless_def)
  then show ?thesis
    using store_invariant_three_records
      store_invariant_preserved [OF store_invariant_three_records,
        of 1 sara sara_form "[ali_row, sara_row]"]
      store_invariant_preserved [OF store_invariant_three_records,
        of 1 sara sara_form "[ali_row, numeric_mode_row]"]
      store_invariant_preserved [OF store_invariant_three_records,
        of 1 sara sara_form "[ali_row, other_column_row]"]
    by (simp add: sara_form_submitted rowToBeneficiary_ali rowToBeneficiary_sara
        rowToBeneficiary_numeric_mode rowToBeneficiary_other_column)
qed

text \<open>
  C3 as stated fails on the import of a row that has a cell, but none under the columns
  the import reads: its record is appended with three empty fields.
\<close>

theorem import_breaks_store_invariant:
  "store_invariant (initial_state ''2024-01-01'') \<and>
   beneficiaries (importRows [other_column_row] (initial_state ''2024-01-01'')) = [nameless] \<and>
   \<not> store_invariant (importRows [other_column_row] (initial_state ''2024-01-01''))"
  by (simp add: store_invariant_def initial_state_def importRows_def
      rowToBeneficiary_other_column complete_def nameless_def)

section \<open>A file that cannot be read\<close>

text \<open>
  Claim C4. When reading the file throws, \<^verbatim>\<open>handleFileUpload\<close> raises one alert and
  the list of beneficiaries is the one from before: nothing of the file is appended. The
  banner, cleared when the file was chosen, stays cleared, and nothing else changes.
\<close>

theorem parse_failure_leaves_store:
  "beneficiaries (handleFileUpload (Some ParseThrows) s) = beneficiaries s \<and>
   alerts (handleFileUpload (Some ParseThrows) s) = alerts s @ [read_error_text] \<and>
   beneficiaries (onload ParseThrows s) = beneficiaries s \<and>
   alerts (onload ParseThrows s) = alerts s @ [read_error_text] \<and>
   handleFileUpload (Some ParseThrows) s
     = s\<lparr> successMessage := None, alerts := alerts s @ [read_error_text] \<rparr>"
  by (simp add: handleFileUpload_def onload_def)

section \<open>What an import appends\<close>




section \<open>Sending to nobody\<close>

text \<open>
  Claim C6. With no beneficiary in the list \<^verbatim>\<open>sendNotifications\<close> returns before it
  sets anything: the pending flag is not raised, nothing is scheduled or written to the
  console, and the only state the call goes through is the one it started in.
\<close>

theorem sendNotifications_empty:
  "beneficiaries s = [] \<Longrightarrow>
   sendNotifications_begin s = None \<and> sendNotifications s = [s]"
  by (simp add: sendNotifications_def sendNotifications_begin_def)

theorem sendNotifications_empty_witness:
  "beneficiaries (initial_state ''2024-01-01'') = [] \<and>
   sendNotifications_begin (initial_state ''2024-01-01'') = None \<and>
   sendNotifications (initial_state ''2024-01-01'') = [initial_state ''2024-01-01'']"
proof -
  have "beneficiaries (initial_state ''2024-01-01'') = []"
    by (simp add: initial_state_def)
  then show ?thesis
    using sendNotifications_empty [of "initial_state ''2024-01-01''"] by simp
qed

section \<open>The account number stays out of the message\<close>

text \<open>
  Claim C7. Two beneficiaries that agree on the name, the phone, the reference and the
  payment method, and so differ at most in the account number, get the same message for
  any date.
\<close>

theorem generateSMSMessage_ignores_accountNumber:
  "name b1 = name b2 \<Longrightarrow> phone b1 = phone b2 \<Longrightarrow> reference b1 = reference b2 \<Longrightarrow>
   paymentMethod b1 = paymentMethod b2 \<Longrightarrow>
   generateSMSMessage d b1 = generateSMSMessage d b2"
proof -
  assume same: "name b1 = name b2" "reference b1 = reference b2"
    "paymentMethod b1 = paymentMethod b2"
  then have "baseMessage d b1 = baseMessage d b2"
    by (simp add: baseMessage_def)
  with same show ?thesis
    by (simp add: generateSMSMessage_def split: payment_method.split)
qed

theorem generateSMSMessage_ignores_accountNumber_witness:
  "accountNumber omar \<noteq> accountNumber (omar\<lparr> accountNumber := Some (Str ''MA99'') \<rparr>) \<and>
   generateSMSMessage ''2024-01-01'' omar
     = generateSMSMessage ''2024-01-01'' (omar\<lparr> accountNumber := Some (Str ''MA99'') \<rparr>)"
  using generateSMSMessage_ignores_accountNumber
    [of omar "omar\<lparr> accountNumber := Some (Str ''MA99'') \<rparr>" "''2024-01-01''"]
  by (simp add: omar_def)

section \<open>Removing a record\<close>

text \<open>
  Claim C8. For an index within the list, \<^verbatim>\<open>removeBeneficiary\<close> leaves the records
  before that index followed by the records after it: the record at the index is the one
  that goes, the list is shorter by one, and the records that stay keep their order.
\<close>

theorem removeBeneficiary_in_range:
  "0 \<le> i \<Longrightarrow> i < int (length (beneficiaries s)) \<Longrightarrow>
   beneficiaries (removeBeneficiary i s)
     = take (nat i) (beneficiaries s) @ drop (Suc (nat i)) (beneficiaries s) \<and>
   Suc (length (beneficiaries (removeBeneficiary i s))) = length (beneficiaries s) \<and>
   (\<forall>j. Suc j < length (beneficiaries s) \<longrightarrow>
      beneficiaries (removeBeneficiary i s) ! j
        = (if j < nat i then beneficiaries s ! j else beneficiaries s ! Suc j))"
proof -
  assume range: "0 \<le> i" "i < int (length (beneficiaries s))"
  note eq = removeBeneficiary_take_drop [OF range]
  from range have "Suc (length (beneficiaries (removeBeneficiary i s)))
      = length (beneficiaries s)"
    unfolding eq by simp
  moreover from range have "\<forall>j. Suc j < length (beneficiaries s) \<longrightarrow>
      beneficiaries (removeBeneficiary i s) ! j
        = (if j < nat i then beneficiaries s ! j else beneficiaries s ! Suc j)"
    unfolding eq by (auto simp: nth_append)
  ultimately show ?thesis
    using eq by simp
qed

theorem removeBeneficiary_in_range_witness:
  "(0::int) \<le> 1 \<and> 1 < int (length (beneficiaries three_records)) \<and>
   beneficiaries (removeBeneficiary 1 three_records) = [ali, omar]"
proof -
  have range: "(0::int) \<le> 1" "1 < int (length (beneficiaries three_records))"
    by (simp_all add: three_records_def initial_state_def)
  show ?thesis
    using range removeBeneficiary_in_range [OF range]
    by (simp add: three_records_def initial_state_def)
qed

section \<open>Clearing\<close>

text \<open>
  Claim C9. Clearing any list of beneficiaries, empty or not, leaves a list of length 0.
\<close>

theorem clear_length:
  "length (beneficiaries (clear s)) = 0"
  by (simp add: clear_def)

section \<open>Removing at an index that is not there\<close>

text \<open>
  Claim C10. For an index below 0 or at or beyond the length of the list,
  \<^verbatim>\<open>removeBeneficiary\<close> removes nothing and raises nothing: the list is the same list
  and no alert is added.
\<close>

theorem removeBeneficiary_out_of_range:
  "i < 0 \<or> int (length (beneficiaries s)) \<le> i \<Longrightarrow>
   beneficiaries (removeBeneficiary i s) = beneficiaries s \<and>
   alerts (removeBeneficiary i s) = alerts s"
  using filter_indexed_miss [of i 0 "beneficiaries s"]
  by (simp add: removeBeneficiary_def)

theorem removeBeneficiary_out_of_range_witness:
  "beneficiaries (removeBeneficiary (- 1) three_records) = [ali, sara, omar] \<and>
   beneficiaries (removeBeneficiary 3 three_records) = [ali, sara, omar] \<and>
   alerts (removeBeneficiary 3 three_records) = []"
proof -
  have len: "length (beneficiaries three_records) = 3"
    by (simp add: three_records_def initial_state_def)
  show ?thesis
    using removeBeneficiary_out_of_range [of "- 1" three_records]
      removeBeneficiary_out_of_range [of 3 three_records]
    by (simp add: len) (simp add: three_records_def initial_state_def)
qed

end
